theory Spec2Isabelle
  imports Complex_Main "HOL-Library.AList"
begin

section \<open>Data model\<close>

text \<open>
  The sources are \<^verbatim>\<open>portfolio_utils.py\<close> and \<^verbatim>\<open>portfolio_optimization.py\<close>.
  Floats are modelled as real numbers, every operation being exact; the rounding of
  doubles is modelled in a section of its own, for the buy-and-hold weight path. Where
  numpy or pandas produce a value that is not a finite number (\<^verbatim>\<open>nan\<close>, \<^verbatim>\<open>inf\<close>), the model has \<open>None\<close>: a scalar that may be
  such a value is a \<open>real option\<close>, a table row that may consist of such values is a
  \<open>real list option\<close>. Python exceptions are values of \<open>py_error\<close>.

  A date is the number of its day. A returns table (a DataFrame indexed by date) has its
  column labels and its rows in index order; every row has one entry per column, and
  the labels of the index are distinct.
\<close>

datatype py_error = IndexError | KeyError | ZeroDivisionError | ValueError

type_synonym date = int

record returns_frame =
  columns :: "string list"
  rows :: "(date \<times> real list) list"

type_synonym weight_dict = "string \<rightharpoonup> real"

definition TRADING_DAYS :: real where
  "TRADING_DAYS = 252"

text \<open>\<^verbatim>\<open>d.get(a, 0.0)\<close> on a dictionary.\<close>

definition dict_get :: "weight_dict \<Rightarrow> string \<Rightarrow> real \<Rightarrow> real" where
  "dict_get d a dflt = (case d a of None \<Rightarrow> dflt | Some v \<Rightarrow> v)"

text \<open>Elementwise product of two float arrays of one length.\<close>

definition vmul :: "real list \<Rightarrow> real list \<Rightarrow> real list" where
  "vmul xs ys = map2 (*) xs ys"

text \<open>
  \<^verbatim>\<open>v / v.sum()\<close>: dividing an array by its sum. A zero sum makes every entry
  \<^verbatim>\<open>nan\<close> or \<^verbatim>\<open>inf\<close>.
\<close>

definition div_by_sum :: "real list \<Rightarrow> real list option" where
  "div_by_sum vs = (if sum_list vs = 0 then None else Some (map (\<lambda>v. v / sum_list vs) vs))"

section \<open>Metrics (portfolio\_utils.py)\<close>

text \<open>\<^verbatim>\<open>Series.mean()\<close>: \<^verbatim>\<open>nan\<close> on an empty series.\<close>

definition series_mean :: "real list \<Rightarrow> real option" where
  "series_mean xs = (if xs = [] then None else Some (sum_list xs / real (length xs)))"

text \<open>\<^verbatim>\<open>Series.std()\<close>: the sample standard deviation, \<^verbatim>\<open>nan\<close> below two points.\<close>

definition series_std :: "real list \<Rightarrow> real option" where
  "series_std xs =
     (if length xs < 2 then None
      else let m = sum_list xs / real (length xs)
           in Some (sqrt (sum_list (map (\<lambda>x. (x - m)\<^sup>2) xs) / real (length xs - 1))))"

text \<open>\<^verbatim>\<open>Series.cummax()\<close> and \<^verbatim>\<open>Series.cumprod()\<close>, as running scans.\<close>

fun cummax_from :: "real \<Rightarrow> real list \<Rightarrow> real list" where
  "cummax_from m [] = []"
| "cummax_from m (x # xs) = max m x # cummax_from (max m x) xs"

definition cummax :: "real list \<Rightarrow> real list" where
  "cummax xs = (case xs of [] \<Rightarrow> [] | x # rest \<Rightarrow> x # cummax_from x rest)"

fun cumprod_from :: "real \<Rightarrow> real list \<Rightarrow> real list" where
  "cumprod_from p [] = []"
| "cumprod_from p (x # xs) = (p * x) # cumprod_from (p * x) xs"

definition cumprod :: "real list \<Rightarrow> real list" where
  "cumprod xs = (case xs of [] \<Rightarrow> [] | x # rest \<Rightarrow> x # cumprod_from x rest)"

text \<open>\<^verbatim>\<open>Series.min()\<close> of a series of finite numbers: \<^verbatim>\<open>nan\<close> when it is empty.\<close>

fun series_min :: "real list \<Rightarrow> real option" where
  "series_min [] = None"
| "series_min (x # xs) = Some (foldl min x xs)"

text \<open>
  \<^verbatim>\<open>max_drawdown\<close>. \<^verbatim>\<open>values.iloc[0]\<close> raises on an empty series. When the first
  value is zero every entry of \<^verbatim>\<open>cum\<close> is \<^verbatim>\<open>nan\<close> or \<^verbatim>\<open>inf\<close> and so is the
  result. Otherwise \<^verbatim>\<open>cum\<close> starts at 1, so the running maximum is at least 1 and the
  division by it is defined.
\<close>

definition max_drawdown :: "real list \<Rightarrow> py_error + real option" where
  "max_drawdown values =
     (case values of
        [] \<Rightarrow> Inl IndexError
      | v0 # _ \<Rightarrow>
          if v0 = 0 then Inr None
          else let cum = map (\<lambda>v. v / v0) values;
                   roll_max = cummax cum;
                   dd = map2 (\<lambda>c m. c / m - 1) cum roll_max
               in Inr (series_min dd))"

text \<open>\<^verbatim>\<open>annualized_vol\<close>.\<close>

definition annualized_vol :: "real list \<Rightarrow> real option" where
  "annualized_vol rets = map_option (\<lambda>s. s * sqrt TRADING_DAYS) (series_std rets)"

text \<open>
  \<^verbatim>\<open>sharpe_ratio\<close>: the conditional expression tests \<^verbatim>\<open>ann_vol != 0\<close>, which also
  holds of a \<^verbatim>\<open>nan\<close> volatility; the quotient is then \<^verbatim>\<open>nan\<close>.
\<close>

definition sharpe_ratio :: "real list \<Rightarrow> real \<Rightarrow> real option" where
  "sharpe_ratio rets risk_free =
     (let ann_ret = map_option (\<lambda>m. m * TRADING_DAYS) (series_mean rets);
          ann_vol = annualized_vol rets
      in if ann_vol \<noteq> Some 0
         then (case (ann_ret, ann_vol) of
                 (Some r, Some v) \<Rightarrow> Some ((r - risk_free) / v)
               | _ \<Rightarrow> None)
         else None)"

text \<open>
  \<^verbatim>\<open>cagr_from_value_series\<close> on a series with its dates. \<^verbatim>\<open>1 / years\<close> divides
  Python floats and raises when the first and last date coincide. A power with a
  negative base and the fractional exponent \<^verbatim>\<open>365.25 / days\<close> is \<^verbatim>\<open>nan\<close>; so is a
  quotient by a zero first value.
\<close>

definition cagr_from_value_series :: "(date \<times> real) list \<Rightarrow> py_error + real option" where
  "cagr_from_value_series values =
     (if values = [] then Inl IndexError
      else let days = fst (last values) - fst (hd values);
               years = real_of_int days / 365.25
           in if years = 0 then Inl ZeroDivisionError
              else let v0 = snd (hd values); v1 = snd (last values)
                   in if v0 = 0 \<or> v1 / v0 < 0 then Inr None
                      else if v1 = 0 \<and> years < 0 then Inr None
                      else Inr (Some ((v1 / v0) powr (1 / years) - 1)))"

record metrics =
  CAGR :: "real option"
  AnnualVol :: "real option"
  Sharpe :: "real option"
  MaxDrawdown :: "real option"

text \<open>\<^verbatim>\<open>portfolio_metrics_from_returns\<close>; the dictionary is built in key order.\<close>

definition portfolio_metrics_from_returns ::
  "(date \<times> real) list \<Rightarrow> real \<Rightarrow> real \<Rightarrow> py_error + metrics" where
  "portfolio_metrics_from_returns portfolio_rets start_value risk_free =
     (let rets = map snd portfolio_rets;
          values = map (\<lambda>c. c * start_value) (cumprod (map (\<lambda>r. 1 + r) rets))
      in case cagr_from_value_series (zip (map fst portfolio_rets) values) of
           Inl e \<Rightarrow> Inl e
         | Inr c \<Rightarrow>
             (case max_drawdown values of
                Inl e \<Rightarrow> Inl e
              | Inr d \<Rightarrow>
                  Inr \<lparr>CAGR = c, AnnualVol = annualized_vol rets,
                       Sharpe = sharpe_ratio rets risk_free, MaxDrawdown = d\<rparr>))"

section \<open>The optimizers (portfolio\_optimization.py)\<close>

text \<open>
  \<^verbatim>\<open>returns.mean()\<close> and \<^verbatim>\<open>returns.cov()\<close> by column: the mean is \<^verbatim>\<open>nan\<close> on a
  table with no row, the sample covariance on a table with fewer than two rows.
\<close>

definition column_values :: "returns_frame \<Rightarrow> nat \<Rightarrow> real list" where
  "column_values R i = map (\<lambda>(d, r). r ! i) (rows R)"

definition frame_mean :: "returns_frame \<Rightarrow> real list option" where
  "frame_mean R =
     (if rows R = [] then None
      else Some (map (\<lambda>i. sum_list (column_values R i) / real (length (rows R)))
                   [0..<length (columns R)]))"

definition covariance :: "real list \<Rightarrow> real list \<Rightarrow> real" where
  "covariance xs ys =
     (let mx = sum_list xs / real (length xs); my = sum_list ys / real (length ys)
      in sum_list (map2 (\<lambda>x y. (x - mx) * (y - my)) xs ys) / real (length xs - 1))"

definition frame_cov :: "returns_frame \<Rightarrow> real list list option" where
  "frame_cov R =
     (if length (rows R) < 2 then None
      else Some (map (\<lambda>i. map (\<lambda>j. covariance (column_values R i) (column_values R j))
                              [0..<length (columns R)])
                   [0..<length (columns R)]))"

text \<open>\<^verbatim>\<open>w @ v\<close>, \<^verbatim>\<open>w @ C\<close> and \<^verbatim>\<open>np.dot(C, w)\<close>.\<close>

definition dot :: "real list \<Rightarrow> real list \<Rightarrow> real" where
  "dot w v = sum_list (vmul w v)"

definition vec_mat :: "real list \<Rightarrow> real list list \<Rightarrow> real list" where
  "vec_mat w C = map (\<lambda>j. dot w (map (\<lambda>row. row ! j) C)) [0..<length w]"

definition mat_vec :: "real list list \<Rightarrow> real list \<Rightarrow> real list" where
  "mat_vec C w = map (\<lambda>row. dot row w) C"

text \<open>\<^verbatim>\<open>np.sqrt\<close>: \<^verbatim>\<open>nan\<close> on a negative number.\<close>

definition np_sqrt :: "real \<Rightarrow> real option" where
  "np_sqrt v = (if v < 0 then None else Some (sqrt v))"

text \<open>
  \<^verbatim>\<open>scipy.optimize.minimize\<close> is a library routine: the model takes it as a parameter
  that maps the problem handed to it (objective, constraints, bounds, starting point,
  options) to its result object, of which the code reads \<^verbatim>\<open>x\<close>, \<^verbatim>\<open>success\<close> and
  \<^verbatim>\<open>message\<close>, or to the exception it raises (as it does on a problem with no
  variable). The vector \<^verbatim>\<open>x\<close> has the shape of the starting point.
\<close>

record nlp_problem =
  nlp_objective :: "real list \<Rightarrow> real option"
  nlp_eq :: "(real list \<Rightarrow> real option) list"
  nlp_ineq :: "(real list \<Rightarrow> real option) list"
  nlp_bounds :: "(real \<times> real) list"
  nlp_x0 :: "real list"
  nlp_ftol :: real
  nlp_maxiter :: nat

record opt_result =
  res_x :: "real list"
  res_success :: bool
  res_message :: string

type_synonym solver = "nlp_problem \<Rightarrow> py_error + opt_result"

text \<open>What the functions print, one value per \<^verbatim>\<open>print\<close> call.\<close>

datatype console_line = OptimizationFailed string | OptimizationWarning string

text \<open>\<^verbatim>\<open>np.clip(x, 0, 1)\<close> and the two lines that follow the solver call.\<close>

definition clip01 :: "real list \<Rightarrow> real list" where
  "clip01 xs = map (\<lambda>v. min 1 (max 0 v)) xs"

definition clip_renormalize :: "real list \<Rightarrow> real list option" where
  "clip_renormalize xs = div_by_sum (clip01 xs)"

text \<open>
  The returned dictionary, in column order; an entry \<open>None\<close> is a \<^verbatim>\<open>nan\<close> weight.
\<close>

type_synonym weights_out = "(string \<times> real option) list"

definition weights_dict :: "string list \<Rightarrow> real list option \<Rightarrow> weights_out" where
  "weights_dict assets w_opt =
     (case w_opt of
        None \<Rightarrow> map (\<lambda>a. (a, None)) assets
      | Some w \<Rightarrow> zip assets (map Some w))"

definition recommend_weights_for_target_return ::
  "solver \<Rightarrow> returns_frame \<Rightarrow> real \<Rightarrow> real \<Rightarrow> real
     \<Rightarrow> py_error + (weights_out \<times> console_line list)" where
  "recommend_weights_for_target_return minimize R target_annual_ret min_weight max_weight =
     (let assets = columns R;
          mean_ann = map_option (map (\<lambda>m. m * TRADING_DAYS)) (frame_mean R);
          cov_ann = map_option (map (map (\<lambda>c. c * TRADING_DAYS))) (frame_cov R);
          n = length assets;
          obj = (\<lambda>w. map_option (\<lambda>C. dot (vec_mat w C) w) cov_ann);
          cons_eq = [\<lambda>w. Some (sum_list w - 1)];
          cons_ineq = [\<lambda>w. map_option (\<lambda>m. dot w m - target_annual_ret) mean_ann];
          bnds = replicate n (min_weight, max_weight)
      in if n = 0 then Inl ZeroDivisionError
         else let x0 = replicate n (1 / real n)
              in case minimize \<lparr>nlp_objective = obj, nlp_eq = cons_eq, nlp_ineq = cons_ineq,
                                  nlp_bounds = bnds, nlp_x0 = x0,
                                  nlp_ftol = 1 / 10 ^ 9, nlp_maxiter = 1000\<rparr> of
                   Inl e \<Rightarrow> Inl e
                 | Inr res \<Rightarrow>
                     let out = (if \<not> res_success res then [OptimizationFailed (res_message res)]
                                else []);
                         w_opt = clip_renormalize (res_x res)
                     in Inr (weights_dict assets w_opt, out))"

definition recommend_weights_for_max_vol ::
  "solver \<Rightarrow> returns_frame \<Rightarrow> real \<Rightarrow> real \<Rightarrow> real
     \<Rightarrow> py_error + (weights_out \<times> console_line list)" where
  "recommend_weights_for_max_vol minimize R max_annual_vol min_weight max_weight =
     (let assets = columns R;
          mean_ann = map_option (map (\<lambda>m. m * TRADING_DAYS)) (frame_mean R);
          cov_ann = map_option (map (map (\<lambda>c. c * TRADING_DAYS))) (frame_cov R);
          n = length assets;
          obj = (\<lambda>w. map_option (\<lambda>m. - dot w m) mean_ann);
          vol_con = (\<lambda>w. Option.bind cov_ann (\<lambda>C. map_option (\<lambda>vol. max_annual_vol - vol)
                                                     (np_sqrt (dot (vec_mat w C) w))));
          cons_eq = [\<lambda>w. Some (sum_list w - 1)];
          cons_ineq = [vol_con];
          bnds = replicate n (min_weight, max_weight)
      in if n = 0 then Inl ZeroDivisionError
         else let x0 = replicate n (1 / real n)
              in case minimize \<lparr>nlp_objective = obj, nlp_eq = cons_eq, nlp_ineq = cons_ineq,
                                  nlp_bounds = bnds, nlp_x0 = x0,
                                  nlp_ftol = 1 / 10 ^ 9, nlp_maxiter = 1000\<rparr> of
                   Inl e \<Rightarrow> Inl e
                 | Inr res \<Rightarrow>
                     let out = (if \<not> res_success res then [OptimizationFailed (res_message res)]
                                else []);
                         w_opt = clip_renormalize (res_x res)
                     in Inr (weights_dict assets w_opt, out))"

text \<open>
  \<^verbatim>\<open>optimize_portfolio_sharpe\<close>: the starting point is built by a comprehension, which
  is empty for a table with no column (the solver then raises), and the dictionary is
  built from \<^verbatim>\<open>result.x\<close> as the solver returned it.
\<close>

definition optimize_portfolio_sharpe ::
  "solver \<Rightarrow> returns_frame \<Rightarrow> real \<Rightarrow> real \<Rightarrow> real
     \<Rightarrow> py_error + (weights_out \<times> console_line list)" where
  "optimize_portfolio_sharpe minimize R min_weight max_weight risk_free_rate =
     (let assets = columns R;
          n = length assets;
          mean_returns = map_option (map (\<lambda>m. m * TRADING_DAYS)) (frame_mean R);
          cov_matrix = map_option (map (map (\<lambda>c. c * TRADING_DAYS))) (frame_cov R);
          neg_sharpe = (\<lambda>w.
             case (mean_returns, cov_matrix) of
               (Some m, Some C) \<Rightarrow>
                 (let port_return = dot w m; port_vol = np_sqrt (dot w (mat_vec C w))
                  in if port_vol = Some 0 then Some (10 ^ 6)
                     else map_option (\<lambda>vol. - (port_return - risk_free_rate) / vol) port_vol)
             | _ \<Rightarrow> None);
          constraints = [\<lambda>w. Some (sum_list w - 1)];
          bnds = replicate n (min_weight, max_weight);
          x0 = replicate n (1 / real n)
      in case minimize \<lparr>nlp_objective = neg_sharpe, nlp_eq = constraints, nlp_ineq = [],
                          nlp_bounds = bnds, nlp_x0 = x0,
                          nlp_ftol = 1 / 10 ^ 9, nlp_maxiter = 1000\<rparr> of
           Inl e \<Rightarrow> Inl e
         | Inr result \<Rightarrow>
             let out = (if \<not> res_success result then [OptimizationWarning (res_message result)]
                        else []);
                 opt_weights = zip assets (map Some (res_x result))
             in Inr (opt_weights, out))"

section \<open>Weight paths (portfolio\_optimization.py)\<close>

text \<open>\<^verbatim>\<open>DataFrame.cumprod()\<close>: the running product down each column.\<close>

fun frame_cumprod_from :: "real list \<Rightarrow> real list list \<Rightarrow> real list list" where
  "frame_cumprod_from p [] = []"
| "frame_cumprod_from p (r # rs) = vmul p r # frame_cumprod_from (vmul p r) rs"

definition frame_cumprod :: "real list list \<Rightarrow> real list list" where
  "frame_cumprod rs = (case rs of [] \<Rightarrow> [] | r # rest \<Rightarrow> r # frame_cumprod_from r rest)"

text \<open>
  \<^verbatim>\<open>weights_over_time_buy_and_hold\<close>; the result is the table of weights by date, a
  row \<open>None\<close> being a row divided by a zero sum.
\<close>

definition tracked_values :: "returns_frame \<Rightarrow> weight_dict \<Rightarrow> real list list" where
  "tracked_values R init_weights =
     (let assets = columns R;
          w0 = map (\<lambda>a. dict_get init_weights a 0) assets;
          cum = frame_cumprod (map (\<lambda>(d, r). map (\<lambda>x. 1 + x) r) (rows R))
      in map (\<lambda>c. vmul c w0) cum)"

definition weights_over_time_buy_and_hold ::
  "returns_frame \<Rightarrow> weight_dict \<Rightarrow> (date \<times> real list option) list" where
  "weights_over_time_buy_and_hold R init_weights =
     (let vals = tracked_values R init_weights;
          weights_t = map div_by_sum vals
      in zip (map fst (rows R)) weights_t)"

text \<open>
  \<^verbatim>\<open>simulate_rebalancing\<close>. \<^verbatim>\<open>returns.groupby(pd.Grouper(freq=freq))\<close> is a library
  routine and a parameter of the model: it cuts the rows into the groups of the calendar
  periods, in order, a period without a trading date giving an empty group.
  \<^verbatim>\<open>group.empty\<close> holds of a group with no row and of a group with no column.

  The table \<^verbatim>\<open>weights_df\<close> starts with a \<^verbatim>\<open>nan\<close> row for every date; it is a function
  from dates to rows, read at the dates of the index when the function returns. The
  dictionary \<^verbatim>\<open>turnovers\<close> is an association list in insertion order; a turnover
  computed from a \<^verbatim>\<open>nan\<close> row is \<^verbatim>\<open>nan\<close>.
\<close>

type_synonym grouper = "string \<Rightarrow> (date \<times> real list) list \<Rightarrow> (date \<times> real list) list list"

type_synonym weights_table = "date \<Rightarrow> real list option"

text \<open>The inner loop over the rows of one group.\<close>

fun drift :: "weights_table \<times> real list \<Rightarrow> (date \<times> real list) list \<Rightarrow> weights_table \<times> real list" where
  "drift (weights_df, vals) [] = (weights_df, vals)"
| "drift (weights_df, vals) ((dt, row) # rest) =
     (let vals' = vmul vals (map (\<lambda>x. 1 + x) row)
      in drift (weights_df(dt := div_by_sum vals'), vals') rest)"

definition turnover_of :: "real list \<Rightarrow> real list option \<Rightarrow> real option" where
  "turnover_of target pre_weights =
     map_option (\<lambda>p. 0.5 * sum_list (map2 (\<lambda>t w. \<bar>t - w\<bar>) target p)) pre_weights"

definition frame_empty :: "string list \<Rightarrow> (date \<times> real list) list \<Rightarrow> bool" where
  "frame_empty assets grp = (assets = [] \<or> grp = [])"

text \<open>The body of the outer loop, for one group.\<close>

definition rebalance_period ::
  "string list \<Rightarrow> real list \<Rightarrow> weights_table \<times> (date \<times> real option) list \<times> real list
     \<Rightarrow> (date \<times> real list) list
     \<Rightarrow> weights_table \<times> (date \<times> real option) list \<times> real list" where
  "rebalance_period assets target st grp =
     (case st of (weights_df, turnovers, vals) \<Rightarrow>
        if frame_empty assets grp then (weights_df, turnovers, vals)
        else (case drift (weights_df, vals) grp of (weights_df', vals') \<Rightarrow>
                let end_date = fst (last grp);
                    pre_weights = weights_df' end_date;
                    turnover = turnover_of target pre_weights
                in (weights_df', AList.update end_date turnover turnovers,
                    map (\<lambda>t. sum_list vals' * t) target)))"

definition simulate_rebalancing ::
  "grouper \<Rightarrow> returns_frame \<Rightarrow> weight_dict \<Rightarrow> string
     \<Rightarrow> (date \<times> real list option) list \<times> (date \<times> real option) list" where
  "simulate_rebalancing groupby R target_weights freq =
     (let assets = columns R;
          target = map (\<lambda>a. dict_get target_weights a 0) assets
      in case foldl (rebalance_period assets target) (\<lambda>d. None, [], target) (groupby freq (rows R)) of
           (weights_df, turnovers, vals) \<Rightarrow>
             (map (\<lambda>d. (d, weights_df d)) (map fst (rows R)), turnovers))"

section \<open>Random portfolios (portfolio\_optimization.py)\<close>

text \<open>
  \<^verbatim>\<open>portfolio_return_series\<close>: \<^verbatim>\<open>returns[cols]\<close> raises on a label that is not a
  column. The weights are a dictionary in insertion order.
\<close>

fun index_of :: "string list \<Rightarrow> string \<Rightarrow> nat option" where
  "index_of [] c = None"
| "index_of (a # as) c = (if a = c then Some 0 else map_option Suc (index_of as c))"

fun those_indices :: "nat option list \<Rightarrow> nat list option" where
  "those_indices [] = Some []"
| "those_indices (None # _) = None"
| "those_indices (Some i # rest) = map_option ((#) i) (those_indices rest)"

definition portfolio_return_series ::
  "returns_frame \<Rightarrow> (string \<times> real) list \<Rightarrow> py_error + (date \<times> real) list" where
  "portfolio_return_series R weights =
     (let cols = map fst weights;
          w = map snd weights
      in case those_indices (map (index_of (columns R)) cols) of
           None \<Rightarrow> Inl KeyError
         | Some idx \<Rightarrow> Inr (map (\<lambda>(d, r). (d, dot (map (\<lambda>i. r ! i) idx) w)) (rows R)))"

text \<open>
  numpy's generator state is process-wide: \<^verbatim>\<open>np.random.seed\<close> overwrites it and
  \<^verbatim>\<open>np.random.dirichlet\<close> reads and advances it. The two library routines are
  parameters of the model, over any type \<open>'g\<close> of generator states; either may raise.
  The model threads the process-wide state through the call: the function takes the
  state it finds and returns the state it leaves.
\<close>

record 'g np_random =
  np_seed :: "int \<Rightarrow> py_error + 'g"
  np_dirichlet :: "'g \<Rightarrow> nat \<Rightarrow> nat \<Rightarrow> py_error + (real list list \<times> 'g)"

record sample_row = metrics +
  weight_columns :: "(string \<times> real) list"

record frame_row = sample_row +
  Return :: "real option"

text \<open>The loop over the samples; an exception ends it.\<close>

fun sample_rows :: "returns_frame \<Rightarrow> real list list \<Rightarrow> py_error + sample_row list" where
  "sample_rows R [] = Inr []"
| "sample_rows R (s # rest) =
     (let assets = columns R;
          w = zip assets s
      in case portfolio_return_series R w of
           Inl e \<Rightarrow> Inl e
         | Inr port_rets \<Rightarrow>
             (case portfolio_metrics_from_returns port_rets 1 0 of
                Inl e \<Rightarrow> Inl e
              | Inr mets \<Rightarrow>
                  (case sample_rows R rest of
                     Inl e \<Rightarrow> Inl e
                   | Inr later \<Rightarrow>
                       Inr (\<lparr>CAGR = CAGR mets, AnnualVol = AnnualVol mets,
                             Sharpe = Sharpe mets, MaxDrawdown = MaxDrawdown mets,
                             weight_columns = map (\<lambda>(a, v). (''w_'' @ a, v)) (zip assets s)\<rparr>
                            # later))))"

text \<open>
  \<^verbatim>\<open>generate_random_portfolios\<close>, with the process-wide generator state before the
  call as last argument and after the call as second component. \<^verbatim>\<open>df["CAGR"]\<close>
  raises on the frame built from no row.
\<close>

definition generate_random_portfolios ::
  "'g np_random \<Rightarrow> returns_frame \<Rightarrow> nat \<Rightarrow> int \<Rightarrow> 'g \<Rightarrow> (py_error + frame_row list) \<times> 'g" where
  "generate_random_portfolios np R num_portfolios seed g =
     (case np_seed np seed of
        Inl e \<Rightarrow> (Inl e, g)
      | Inr g1 \<Rightarrow>
          (let assets = columns R; n = length assets
           in case np_dirichlet np g1 n num_portfolios of
                Inl e \<Rightarrow> (Inl e, g1)
              | Inr (samples, g2) \<Rightarrow>
                  (case sample_rows R samples of
                     Inl e \<Rightarrow> (Inl e, g2)
                   | Inr rws \<Rightarrow>
                       if rws = [] then (Inl KeyError, g2)
                       else (Inr (map (\<lambda>r. \<lparr>CAGR = CAGR r, AnnualVol = AnnualVol r,
                                              Sharpe = Sharpe r, MaxDrawdown = MaxDrawdown r,
                                              weight_columns = weight_columns r,
                                              Return = CAGR r\<rparr>) rws), g2))))"

section \<open>Double precision\<close>













section \<open>Reference definitions and sample inputs\<close>

text \<open>
  The drawdown at position \<open>t\<close> of a value series, as the specification words it: the
  value at \<open>t\<close> over the running maximum up to and including \<open>t\<close>, minus one.
\<close>

definition spec_drawdown_at :: "real list \<Rightarrow> nat \<Rightarrow> real" where
  "spec_drawdown_at values t = values ! t / Max (set (take (Suc t) values)) - 1"

text \<open>
  The value vector at the end of a period, as the specification words it: over the dates of
  the period in order, every asset's value is multiplied by one plus its return.
\<close>

definition drifted_values :: "real list \<Rightarrow> (date \<times> real list) list \<Rightarrow> real list" where
  "drifted_values vals grp = foldl (\<lambda>v (d, row). map2 (\<lambda>x r. x * (1 + r)) v row) vals grp"

text \<open>
  The tracked value of asset \<open>i\<close> at position \<open>t\<close> under buy-and-hold, as the
  specification words it: the initial weight times the product of one plus the asset's
  return over the dates up to and including \<open>t\<close>.
\<close>

definition spec_tracked_value :: "returns_frame \<Rightarrow> weight_dict \<Rightarrow> nat \<Rightarrow> nat \<Rightarrow> real" where
  "spec_tracked_value R init_weights t i =
     dict_get init_weights (columns R ! i) 0
       * prod_list (map (\<lambda>(d, r). 1 + r ! i) (take (Suc t) (rows R)))"


text \<open>
  A generator on which the sampler can be evaluated: its state is the last seed and the
  number of variates drawn since, and every draw is the centre of the simplex.
\<close>

definition counter_rng :: "(int \<times> nat) np_random" where
  "counter_rng =
     \<lparr>np_seed = (\<lambda>s. Inr (s, 0)),
      np_dirichlet = (\<lambda>g n k. Inr (replicate k (replicate n (1 / real n)), (fst g, snd g + n * k)))\<rparr>"

text \<open>A solver run that stops at the iterate \<open>xs\<close> and reports no success.\<close>

definition solver_returning :: "real list \<Rightarrow> solver" where
  "solver_returning xs p = Inr \<lparr>res_x = xs, res_success = False, res_message = ''failed''\<rparr>"

text \<open>
  Two groupers: one that puts all rows into a single period, and one that also yields
  an empty period before and after it.
\<close>

definition single_period :: grouper where
  "single_period freq rs = [rs]"

definition padded_period :: grouper where
  "padded_period freq rs = [[], rs, []]"


definition two_assets :: returns_frame where
  "two_assets = \<lparr>columns = [''A'', ''B''],
                 rows = [(0, [1/100, 0]), (1, [-1/100, 1/100]), (2, [2/100, -1/100]), (3, [0, 2/100])]\<rparr>"

definition one_asset :: returns_frame where
  "one_asset = \<lparr>columns = [''A''], rows = [(0, [1/100]), (1, [-1/100]), (2, [2/100])]\<rparr>"

section \<open>Metrics: maximum drawdown and Sharpe ratio\<close>

lemma length_cummax_from: "length (cummax_from m xs) = length xs"
  by (induction xs arbitrary: m) auto

lemma length_cummax: "length (cummax xs) = length xs"
  by (cases xs) (auto simp: cummax_def length_cummax_from)

lemma cummax_from_nth:
  "i < length xs \<Longrightarrow> cummax_from m xs ! i = Max (insert m (set (take (Suc i) xs)))"
proof (induction xs arbitrary: m i)
  case Nil
  then show ?case by simp
next
  case (Cons x xs)
  show ?case
  proof (cases i)
    case 0
    then show ?thesis by (simp add: max.commute)
  next
    case (Suc j)
    with Cons.prems have j: "j < length xs" by simp
    have "cummax_from m (x # xs) ! i = Max (insert (max m x) (set (take (Suc j) xs)))"
      using Suc Cons.IH [OF j] by simp
    also have "\<dots> = Max (insert m (insert x (set (take (Suc j) xs))))"
    proof -
      have "set (take (Suc j) xs) \<noteq> {}" using j by (cases xs) auto
      then show ?thesis by (simp add: max.assoc)
    qed
    finally show ?thesis using Suc by simp
  qed
qed

lemma cummax_nth:
  "t < length xs \<Longrightarrow> cummax xs ! t = Max (set (take (Suc t) xs))"
proof (cases xs)
  case Nil
  assume "t < length xs"
  with Nil show ?thesis by simp
next
  case (Cons x rest)
  assume t: "t < length xs"
  show ?thesis
  proof (cases t)
    case 0
    with Cons show ?thesis by (simp add: cummax_def)
  next
    case (Suc j)
    with t Cons have "j < length rest" by simp
    then show ?thesis using Suc Cons by (simp add: cummax_def cummax_from_nth)
  qed
qed

lemma foldl_min_Min: "foldl min x xs = Min (set (x # xs))"
proof (induction xs arbitrary: x)
  case Nil
  then show ?case by simp
next
  case (Cons y ys)
  have "foldl min x (y # ys) = Min (insert (min x y) (set ys))"
    using Cons.IH [of "min x y"] by simp
  also have "\<dots> = Min (insert x (insert y (set ys)))"
    by (cases "ys = []") (simp_all add: min.assoc)
  finally show ?case by simp
qed

lemma series_min_Min: "xs \<noteq> [] \<Longrightarrow> series_min xs = Some (Min (set xs))"
  by (cases xs) (simp_all add: foldl_min_Min)

lemma Max_div_pos:
  fixes S :: "real set"
  assumes "finite S" "S \<noteq> {}" "0 < c"
  shows "Max ((\<lambda>v. v / c) ` S) = Max S / c"
proof -
  have "mono (\<lambda>v::real. v / c)"
    using assms(3) by (auto simp: mono_def divide_right_mono)
  from mono_Max_commute [OF this assms(1,2)] show ?thesis by simp
qed

lemma dd_nth:
  assumes pos: "\<forall>v\<in>set values. 0 < v" and v0: "0 < v0" and t: "t < length values"
  shows "map2 (\<lambda>c m. c / m - 1) (map (\<lambda>v. v / v0) values) (cummax (map (\<lambda>v. v / v0) values)) ! t
         = values ! t / Max (set (take (Suc t) values)) - 1"
proof -
  let ?cum = "map (\<lambda>v. v / v0) values"
  have ne: "set (take (Suc t) values) \<noteq> {}" using t by (cases "values") auto
  have "cummax ?cum ! t = Max (set (take (Suc t) ?cum))"
    using t by (simp add: cummax_nth)
  also have "\<dots> = Max ((\<lambda>v. v / v0) ` set (take (Suc t) values))"
    by (simp add: take_map)
  also have "\<dots> = Max (set (take (Suc t) values)) / v0"
    using ne v0 by (simp add: Max_div_pos)
  finally have m: "cummax ?cum ! t = Max (set (take (Suc t) values)) / v0" .
  have "values ! t \<in> set (take (Suc t) values)"
    using t by (metis in_set_conv_nth length_take lessI min_less_iff_conj nth_take)
  then have "values ! t \<le> Max (set (take (Suc t) values))" by simp
  moreover have "0 < values ! t" using pos t by simp
  ultimately have mpos: "0 < Max (set (take (Suc t) values))" by linarith
  show ?thesis
    using t v0 m mpos by (simp add: length_cummax)
qed

lemma dd_list:
  assumes pos: "\<forall>v\<in>set values. 0 < v" and v0: "0 < v0"
  shows "map2 (\<lambda>c m. c / m - 1) (map (\<lambda>v. v / v0) values) (cummax (map (\<lambda>v. v / v0) values))
         = map (\<lambda>t. values ! t / Max (set (take (Suc t) values)) - 1) [0..<length values]"
proof (rule nth_equalityI)
  show "length (map2 (\<lambda>c m. c / m - 1) (map (\<lambda>v. v / v0) values) (cummax (map (\<lambda>v. v / v0) values)))
        = length (map (\<lambda>t. values ! t / Max (set (take (Suc t) values)) - 1) [0..<length values])"
    by (simp add: length_cummax)
next
  fix i
  assume "i < length (map2 (\<lambda>c m. c / m - 1) (map (\<lambda>v. v / v0) values) (cummax (map (\<lambda>v. v / v0) values)))"
  then have i: "i < length values" by (simp add: length_cummax)
  from dd_nth [OF pos v0 i] i
  show "map2 (\<lambda>c m. c / m - 1) (map (\<lambda>v. v / v0) values) (cummax (map (\<lambda>v. v / v0) values)) ! i
        = map (\<lambda>t. values ! t / Max (set (take (Suc t) values)) - 1) [0..<length values] ! i"
    by simp
qed

lemma max_drawdown_formula:
  assumes ne: "values \<noteq> []" and pos: "\<forall>v\<in>set values. 0 < v"
  shows "max_drawdown values = Inr (Some (Min (spec_drawdown_at values ` {..<length values})))"
proof -
  obtain v0 rest where vs: "values = v0 # rest" using ne by (cases "values") auto
  have v0: "0 < v0" using pos vs by simp
  have nz: "[0..<length values] \<noteq> []" using ne by simp
  have "max_drawdown values
        = Inr (series_min (map (\<lambda>t. values ! t / Max (set (take (Suc t) values)) - 1) [0..<length values]))"
    using v0 dd_list [OF pos v0] unfolding max_drawdown_def vs by (simp add: Let_def)
  also have "\<dots> = Inr (Some (Min (set (map (spec_drawdown_at values) [0..<length values]))))"
    using nz by (simp add: series_min_Min spec_drawdown_at_def [abs_def])
  also have "set (map (spec_drawdown_at values) [0..<length values]) = spec_drawdown_at values ` {..<length values}"
    by (simp add: lessThan_atLeast0)
  finally show ?thesis .
qed

lemma spec_drawdown_at_le_0:
  assumes pos: "\<forall>v\<in>set values. 0 < v" and t: "t < length values"
  shows "spec_drawdown_at values t \<le> 0"
proof -
  have "values ! t \<in> set (take (Suc t) values)"
    using t by (metis in_set_conv_nth length_take lessI min_less_iff_conj nth_take)
  then have le: "values ! t \<le> Max (set (take (Suc t) values))" by simp
  moreover have "0 < values ! t" using pos t by simp
  ultimately have "0 < Max (set (take (Suc t) values))" by linarith
  with le show ?thesis by (simp add: spec_drawdown_at_def)
qed

lemma spec_drawdown_at_sorted:
  assumes srt: "sorted values" and pos: "\<forall>v\<in>set values. 0 < v" and t: "t < length values"
  shows "spec_drawdown_at values t = 0"
proof -
  have mem: "values ! t \<in> set (take (Suc t) values)"
    using t by (metis in_set_conv_nth length_take lessI min_less_iff_conj nth_take)
  have "\<And>x. x \<in> set (take (Suc t) values) \<Longrightarrow> x \<le> values ! t"
  proof -
    fix x assume "x \<in> set (take (Suc t) values)"
    then obtain i where "i < Suc t" "i < length values" "x = values ! i"
      by (auto simp: in_set_conv_nth)
    then show "x \<le> values ! t" using srt t by (simp add: sorted_nth_mono)
  qed
  with mem have "Max (set (take (Suc t) values)) = values ! t"
    by (intro Max_eqI) auto
  moreover have "0 < values ! t" using pos t by simp
  ultimately show ?thesis by (simp add: spec_drawdown_at_def)
qed

text \<open>
  Claim C8. On a non-empty series of positive values \<open>max_drawdown\<close> is the minimum
  over the positions \<open>t\<close> of the value at \<open>t\<close> over the running maximum up to
  \<open>t\<close>, minus one; it is at most 0; it is 0 on a non-decreasing series; and on
  \<open>[1.0, 1.2, 0.9, 1.1]\<close> it is \<open>0.9 / 1.2 - 1 = -0.25\<close>.
\<close>

theorem max_drawdown_is_min_drawdown:
  assumes "values \<noteq> []" and "\<forall>v\<in>set values. 0 < v"
  shows "max_drawdown values = Inr (Some (Min (spec_drawdown_at values ` {..<length values})))
       \<and> Min (spec_drawdown_at values ` {..<length values}) \<le> 0
       \<and> (sorted values \<longrightarrow> max_drawdown values = Inr (Some 0))
       \<and> max_drawdown [1, 12/10, 9/10, 11/10] = Inr (Some (9/10 / (12/10) - 1))
       \<and> max_drawdown [1, 12/10, 9/10, 11/10] = Inr (Some (- (25/100)))"
proof -
  let ?D = "spec_drawdown_at values ` {..<length values}"
  have fin: "finite ?D" and ne: "?D \<noteq> {}" using assms(1) by auto
  have f: "max_drawdown values = Inr (Some (Min ?D))"
    by (rule max_drawdown_formula [OF assms])
  have le: "Min ?D \<le> 0"
  proof -
    have "spec_drawdown_at values 0 \<in> ?D" using assms(1) by auto
    then have "Min ?D \<le> spec_drawdown_at values 0" using fin by (rule_tac Min_le)
    also have "\<dots> \<le> 0" using assms by (intro spec_drawdown_at_le_0) auto
    finally show ?thesis .
  qed
  have s: "max_drawdown values = Inr (Some 0)" if srt: "sorted values"
  proof -
    have "?D = {0}"
      using spec_drawdown_at_sorted [OF srt assms(2)] assms(1) by (auto simp: image_iff)
    then show ?thesis using f by simp
  qed
  have e: "max_drawdown [1, 12/10, 9/10, 11/10] = Inr (Some (- (25/100)))"
    by (simp add: max_drawdown_def cummax_def)
  show ?thesis using f le s e by simp
qed

text \<open>
  Claim C8, at the non-decreasing series \<open>[1, 2, 3]\<close> and at the series of the
  scenario.
\<close>

theorem max_drawdown_is_min_drawdown_witness:
  "max_drawdown [1, 2, 3] = Inr (Some 0)
   \<and> max_drawdown [1, 12/10, 9/10, 11/10]
       = Inr (Some (Min (spec_drawdown_at [1, 12/10, 9/10, 11/10]
                           ` {..<length [1, 12/10, 9/10, 11/10 :: real]})))"
proof -
  have a: "[1, 2, 3 :: real] \<noteq> []" "\<forall>v\<in>set [1, 2, 3 :: real]. 0 < v" "sorted [1, 2, 3 :: real]"
    by simp_all
  have b: "[1, 12/10, 9/10, 11/10 :: real] \<noteq> []" "\<forall>v\<in>set [1, 12/10, 9/10, 11/10 :: real]. 0 < v"
    by simp_all
  from max_drawdown_is_min_drawdown [OF a(1,2)] a(3)
  have "max_drawdown [1, 2, 3] = Inr (Some 0)" by blast
  moreover from max_drawdown_is_min_drawdown [OF b]
  have "max_drawdown [1, 12/10, 9/10, 11/10]
       = Inr (Some (Min (spec_drawdown_at [1, 12/10, 9/10, 11/10]
                           ` {..<length [1, 12/10, 9/10, 11/10 :: real]})))" by blast
  ultimately show ?thesis by blast
qed

text \<open>
  Claim C7. \<open>sharpe_ratio\<close> has no error result. When the annualized volatility is
  exactly zero its result is the undefined value (\<^verbatim>\<open>nan\<close>); when the volatility is a
  non-zero number the result is the annualized mean minus the risk-free rate, over the
  volatility.
\<close>

theorem sharpe_ratio_zero_vol:
  "(annualized_vol rets = Some 0 \<longrightarrow> sharpe_ratio rets risk_free = None)
   \<and> (\<forall>v. annualized_vol rets = Some v \<and> v \<noteq> 0 \<longrightarrow>
          (\<exists>m. series_mean rets = Some m
             \<and> sharpe_ratio rets risk_free = Some ((m * TRADING_DAYS - risk_free) / v)))"
  by (auto simp: sharpe_ratio_def annualized_vol_def series_std_def series_mean_def Let_def
           split: if_splits)

text \<open>
  Claim C7, at a constant series (zero volatility) and at the series \<open>[0, 2]\<close>.
\<close>

theorem sharpe_ratio_zero_vol_witness:
  "sharpe_ratio [1/100, 1/100] 0 = None
   \<and> sharpe_ratio [0, 2] 0 = Some ((1 * TRADING_DAYS - 0) / (sqrt 2 * sqrt 252))"
  using sharpe_ratio_zero_vol [of "[1/100, 1/100]" 0]
        sharpe_ratio_zero_vol [of "[0, 2]" 0]
  by (simp add: annualized_vol_def series_std_def series_mean_def TRADING_DAYS_def power2_eq_square)

section \<open>Periodic rebalancing: turnover\<close>

lemma vmul_one_plus: "vmul v (map (\<lambda>x. 1 + x) row) = map2 (\<lambda>x r. x * (1 + r)) v row"
  by (simp add: vmul_def zip_map2 split_beta)

lemma drift_snd: "snd (drift (wdf, vals) grp) = drifted_values vals grp"
proof (induction grp arbitrary: wdf vals)
  case Nil
  then show ?case by (simp add: drifted_values_def)
next
  case (Cons a grp)
  obtain d row where a: "a = (d, row)" by (cases a)
  show ?case
    using Cons.IH by (simp add: a Let_def drifted_values_def vmul_one_plus)
qed

lemma drift_last:
  "grp \<noteq> [] \<Longrightarrow> fst (drift (wdf, vals) grp) (fst (last grp)) = div_by_sum (drifted_values vals grp)"
proof (induction grp arbitrary: wdf vals)
  case Nil
  then show ?case by simp
next
  case (Cons a grp)
  obtain d row where a: "a = (d, row)" by (cases a)
  show ?case
  proof (cases "grp = []")
    case True
    then show ?thesis by (simp add: a Let_def drifted_values_def vmul_one_plus)
  next
    case False
    with Cons.IH show ?thesis
      by (simp add: a Let_def drifted_values_def vmul_one_plus)
  qed
qed

lemma sum_list_div_const: "sum_list (map (\<lambda>v. v / s) vs) = sum_list vs / (s::real)"
  by (induction vs) (simp_all add: add_divide_distrib)

lemma div_by_sum_sums_to_one: "div_by_sum vs = Some ws \<Longrightarrow> sum_list ws = 1"
  by (auto simp: div_by_sum_def sum_list_div_const split: if_splits)

lemma div_by_sum_nonneg:
  assumes "div_by_sum vs = Some ws" "\<forall>v\<in>set vs. 0 \<le> v"
  shows "\<forall>w\<in>set ws. 0 \<le> w"
proof -
  have "0 \<le> sum_list vs" using assms(2) by (simp add: sum_list_nonneg)
  then show ?thesis using assms by (auto simp: div_by_sum_def split: if_splits)
qed

lemma abs_diff_sum_le:
  "\<forall>t\<in>set ts. 0 \<le> t \<Longrightarrow> \<forall>w\<in>set ws. 0 \<le> w \<Longrightarrow>
     sum_list (map2 (\<lambda>t w. \<bar>t - w\<bar>) ts ws) \<le> sum_list ts + sum_list (ws::real list)"
proof (induction ts arbitrary: ws)
  case Nil
  then show ?case by (simp add: sum_list_nonneg)
next
  case (Cons t ts)
  show ?case
  proof (cases ws)
    case Nil
    with Cons.prems show ?thesis by (simp add: sum_list_nonneg)
  next
    case (Cons w ws')
    have "sum_list (map2 (\<lambda>t w. \<bar>t - w\<bar>) ts ws') \<le> sum_list ts + sum_list ws'"
      using Cons.prems Cons by (intro Cons.IH) auto
    moreover have "\<bar>t - w\<bar> \<le> t + w" using Cons.prems Cons by auto
    ultimately show ?thesis using Cons by simp
  qed
qed

lemma abs_diff_sum_nonneg: "0 \<le> sum_list (map2 (\<lambda>t w. \<bar>t - w\<bar>) ts (ws::real list))"
  by (rule sum_list_nonneg) auto

lemma turnover_bounds:
  assumes "\<forall>t\<in>set target. 0 \<le> t" "sum_list target = 1"
      and "\<forall>v\<in>set vs. 0 \<le> v" "sum_list vs \<noteq> 0"
  shows "\<exists>x. turnover_of target (div_by_sum vs) = Some x \<and> 0 \<le> x \<and> x \<le> 1"
proof -
  obtain ws where ws: "div_by_sum vs = Some ws"
    using assms(4) by (simp add: div_by_sum_def)
  have s: "sum_list ws = 1" using ws by (rule div_by_sum_sums_to_one)
  have n: "\<forall>w\<in>set ws. 0 \<le> w" using ws assms(3) by (rule div_by_sum_nonneg)
  have "sum_list (map2 (\<lambda>t w. \<bar>t - w\<bar>) target ws) \<le> 2"
    using abs_diff_sum_le [OF assms(1) n] assms(2) s by simp
  then have u: "0.5 * sum_list (map2 (\<lambda>t w. \<bar>t - w\<bar>) target ws) \<le> 1" by simp
  have l: "0 \<le> 0.5 * sum_list (map2 (\<lambda>t w. \<bar>t - w\<bar>) target ws)"
    using abs_diff_sum_nonneg [of target ws] by simp
  have "turnover_of target (div_by_sum vs) = Some (0.5 * sum_list (map2 (\<lambda>t w. \<bar>t - w\<bar>) target ws))"
    by (simp only: ws turnover_of_def option.map)
  with u l show ?thesis by blast
qed

lemma turnover_nonneg: "turnover_of target pre = Some x \<Longrightarrow> 0 \<le> x"
proof (cases pre)
  case None
  assume "turnover_of target pre = Some x"
  with None show ?thesis by (simp add: turnover_of_def)
next
  case (Some ws)
  assume "turnover_of target pre = Some x"
  with Some have "x = 0.5 * sum_list (map2 (\<lambda>t w. \<bar>t - w\<bar>) target ws)"
    by (simp only: turnover_of_def option.map option.inject)
  then show ?thesis using abs_diff_sum_nonneg [of target ws] by simp
qed

lemma rebalance_period_empty:
  "frame_empty assets grp \<Longrightarrow> rebalance_period assets target st grp = st"
  by (cases st) (simp add: rebalance_period_def)

lemma rebalance_period_nonempty:
  assumes "\<not> frame_empty assets grp"
  shows "snd (rebalance_period assets target (wdf, tos, vals) grp)
         = (AList.update (fst (last grp)) (turnover_of target (div_by_sum (drifted_values vals grp))) tos,
            map (\<lambda>t. sum_list (drifted_values vals grp) * t) target)"
proof -
  have ne: "grp \<noteq> []" using assms by (simp add: frame_empty_def)
  obtain wdf' vals' where d: "drift (wdf, vals) grp = (wdf', vals')" by (cases "drift (wdf, vals) grp")
  have v: "vals' = drifted_values vals grp" using drift_snd [of wdf vals grp] d by simp
  have w: "wdf' (fst (last grp)) = div_by_sum (drifted_values vals grp)"
    using drift_last [OF ne, of wdf vals] d by simp
  show ?thesis using assms d v w by (simp add: rebalance_period_def Let_def)
qed

lemma foldl_rebalance_skip_empty:
  "foldl (rebalance_period assets target) st (filter (\<lambda>g. g \<noteq> []) groups)
   = foldl (rebalance_period assets target) st groups"
proof (induction groups arbitrary: st)
  case Nil
  then show ?case by simp
next
  case (Cons g groups)
  show ?case
  proof (cases "g = []")
    case True
    then have "rebalance_period assets target st g = st"
      by (intro rebalance_period_empty) (simp add: frame_empty_def)
    with True Cons.IH show ?thesis by simp
  next
    case False
    with Cons.IH show ?thesis by simp
  qed
qed

lemma simulate_rebalancing_skip_empty:
  "simulate_rebalancing (\<lambda>f rs. filter (\<lambda>g. g \<noteq> []) (groupby f rs)) R target_weights freq
   = simulate_rebalancing groupby R target_weights freq"
  by (simp add: simulate_rebalancing_def foldl_rebalance_skip_empty)

text \<open>
  Claim C4, as amended. An empty period changes nothing: no turnover record, no weight
  row, the same value vector; so the simulation is the one over the periods that have a
  trading date. For a non-empty period, the turnover recorded at the period's last date
  is 0.5 times the sum over the assets of the absolute difference between the target
  weight and the weight before the rebalance at that date (the end-of-period values over
  their sum; the record is \<^verbatim>\<open>nan\<close> when that sum is zero), and the value vector is then
  the total value times the target weights. A recorded turnover is never negative. For
  target weights that are non-negative and sum to 1, it is at most 1 when the
  end-of-period values are non-negative and their sum is not zero. The drift from target
  \<open>{A: 0.5, B: 0.5}\<close> to \<open>{A: 0.6, B: 0.4}\<close> in one period gives turnover 0.1.
\<close>

theorem rebalance_period_turnover:
  "(frame_empty assets grp \<longrightarrow>
      rebalance_period assets target (wdf, tos, vals) grp = (wdf, tos, vals))
   \<and> simulate_rebalancing (\<lambda>f rs. filter (\<lambda>g. g \<noteq> []) (groupby f rs)) R target_weights freq
       = simulate_rebalancing groupby R target_weights freq
   \<and> (\<not> frame_empty assets grp \<longrightarrow>
        snd (rebalance_period assets target (wdf, tos, vals) grp)
          = (AList.update (fst (last grp))
               (map_option (\<lambda>pre. 0.5 * (\<Sum>(t, w)\<leftarrow>zip target pre. \<bar>t - w\<bar>))
                  (div_by_sum (drifted_values vals grp))) tos,
             map (\<lambda>t. sum_list (drifted_values vals grp) * t) target))
   \<and> (\<not> frame_empty assets grp \<longrightarrow>
        (\<exists>tv. map_of (fst (snd (rebalance_period assets target (wdf, tos, vals) grp))) (fst (last grp))
                 = Some tv
           \<and> (\<forall>x. tv = Some x \<longrightarrow> 0 \<le> x)
           \<and> ((\<forall>t\<in>set target. 0 \<le> t) \<and> sum_list target = 1
                \<and> (\<forall>v\<in>set (drifted_values vals grp). 0 \<le> v) \<and> sum_list (drifted_values vals grp) \<noteq> 0
               \<longrightarrow> (\<exists>x. tv = Some x \<and> 0 \<le> x \<and> x \<le> 1))))
   \<and> simulate_rebalancing padded_period
         \<lparr>columns = [''A'', ''B''], rows = [(0, [2/10, -2/10])]\<rparr>
         [''A'' \<mapsto> 1/2, ''B'' \<mapsto> 1/2] ''6M''
       = ([(0, Some [6/10, 4/10])], [(0, Some (1/10))])"
proof -
  have a: "rebalance_period assets target (wdf, tos, vals) grp = (wdf, tos, vals)"
    if "frame_empty assets grp"
    using that by (rule rebalance_period_empty)
  have s: "simulate_rebalancing (\<lambda>f rs. filter (\<lambda>g. g \<noteq> []) (groupby f rs)) R target_weights freq
       = simulate_rebalancing groupby R target_weights freq"
    by (rule simulate_rebalancing_skip_empty)
  have b: "snd (rebalance_period assets target (wdf, tos, vals) grp)
          = (AList.update (fst (last grp))
               (map_option (\<lambda>pre. 0.5 * (\<Sum>(t, w)\<leftarrow>zip target pre. \<bar>t - w\<bar>))
                  (div_by_sum (drifted_values vals grp))) tos,
             map (\<lambda>t. sum_list (drifted_values vals grp) * t) target)" if "\<not> frame_empty assets grp"
    using rebalance_period_nonempty [OF that, of target wdf tos vals]
    by (simp add: turnover_of_def)
  have c: "\<exists>tv. map_of (fst (snd (rebalance_period assets target (wdf, tos, vals) grp))) (fst (last grp))
                 = Some tv
           \<and> (\<forall>x. tv = Some x \<longrightarrow> 0 \<le> x)
           \<and> ((\<forall>t\<in>set target. 0 \<le> t) \<and> sum_list target = 1
                \<and> (\<forall>v\<in>set (drifted_values vals grp). 0 \<le> v) \<and> sum_list (drifted_values vals grp) \<noteq> 0
               \<longrightarrow> (\<exists>x. tv = Some x \<and> 0 \<le> x \<and> x \<le> 1))" if ne: "\<not> frame_empty assets grp"
  proof -
    let ?tv = "turnover_of target (div_by_sum (drifted_values vals grp))"
    have 1: "map_of (fst (snd (rebalance_period assets target (wdf, tos, vals) grp))) (fst (last grp))
             = Some ?tv"
      using rebalance_period_nonempty [OF ne, of target wdf tos vals] by (simp add: update_conv')
    have 2: "\<forall>x. ?tv = Some x \<longrightarrow> 0 \<le> x"
      using turnover_nonneg by blast
    have 3: "\<exists>x. ?tv = Some x \<and> 0 \<le> x \<and> x \<le> 1"
      if "(\<forall>t\<in>set target. 0 \<le> t) \<and> sum_list target = 1
          \<and> (\<forall>v\<in>set (drifted_values vals grp). 0 \<le> v) \<and> sum_list (drifted_values vals grp) \<noteq> 0"
      using that by (intro turnover_bounds) auto
    show ?thesis using 1 2 3 by blast
  qed
  have d: "simulate_rebalancing padded_period
         \<lparr>columns = [''A'', ''B''], rows = [(0, [2/10, -2/10])]\<rparr>
         [''A'' \<mapsto> 1/2, ''B'' \<mapsto> 1/2] ''6M''
       = ([(0, Some [6/10, 4/10])], [(0, Some (1/10))])"
    by (simp add: simulate_rebalancing_def rebalance_period_def frame_empty_def turnover_of_def
                  div_by_sum_def vmul_def dict_get_def padded_period_def Let_def)
  show ?thesis using a s b c d by blast
qed

text \<open>
  Claim C4, at the one-period drift from \<open>{A: 0.5, B: 0.5}\<close> to \<open>{A: 0.6, B: 0.4}\<close>, and
  at an empty period.
\<close>

theorem rebalance_period_turnover_witness:
  "(\<exists>x. map_of (fst (snd (rebalance_period [''A'', ''B''] [1/2, 1/2] (\<lambda>d. None, [], [1/2, 1/2])
                             [(0, [2/10, -2/10])]))) 0
          = Some (Some x) \<and> 0 \<le> x \<and> x \<le> 1)
   \<and> snd (rebalance_period [''A'', ''B''] [1/2, 1/2] (\<lambda>d. None, [], [1/2, 1/2]) [(0, [2/10, -2/10])])
       = ([(0, Some (1/10))], [1/2, 1/2])
   \<and> snd (rebalance_period [''A'', ''B''] [1/2, 1/2] (\<lambda>d. None, [], [1/2, 1/2]) [])
       = ([], [1/2, 1/2])"
proof -
  let ?grp = "[(0::int, [2/10, -2/10 :: real])]"
  let ?t = "[1/2, 1/2 :: real]"
  let ?as = "[''A'', ''B'']"
  have h: "\<not> frame_empty ?as ?grp" "\<forall>t\<in>set ?t. 0 \<le> t" "sum_list ?t = 1"
          "\<forall>v\<in>set (drifted_values ?t ?grp). 0 \<le> v" "sum_list (drifted_values ?t ?grp) \<noteq> 0"
    by (simp_all add: drifted_values_def frame_empty_def)
  have e: "frame_empty ?as []" by (simp add: frame_empty_def)
  note th = rebalance_period_turnover
              [of ?as ?grp ?t "\<lambda>d. None" "[]" ?t single_period two_assets Map.empty "''6M''"]
  have 1: "\<exists>x. map_of (fst (snd (rebalance_period ?as ?t (\<lambda>d. None, [], ?t) ?grp))) 0
          = Some (Some x) \<and> 0 \<le> x \<and> x \<le> 1"
    using th h by fastforce
  have 2: "snd (rebalance_period ?as ?t (\<lambda>d. None, [], ?t) ?grp) = ([(0, Some (1/10))], [1/2, 1/2])"
    using th h(1) by (simp add: drifted_values_def div_by_sum_def)
  have 3: "snd (rebalance_period ?as ?t (\<lambda>d. None, [], ?t) []) = ([], [1/2, 1/2])"
    using rebalance_period_turnover
            [of ?as "[]" ?t "\<lambda>d. None" "[]" ?t single_period two_assets Map.empty "''6M''"] e
    by simp
  show ?thesis using 1 2 3 by blast
qed

text \<open>
  Claim C4 as stated fails on target weights \<open>{A: 0.5, B: 0.5}\<close>. A day with returns
  \<open>{A: -1.5, B: 0}\<close> leaves the values \<open>{A: -0.25, B: 0.5}\<close>, the weights before the
  rebalance \<open>{A: -1, B: 2}\<close> and the recorded turnover 1.5, outside \<open>[0, 1]\<close>. A day
  with returns \<open>{A: -1, B: -1}\<close> leaves the values zero, and the recorded turnover is
  \<^verbatim>\<open>nan\<close>.
\<close>

theorem turnover_exceeds_one:
  "simulate_rebalancing single_period \<lparr>columns = [''A'', ''B''], rows = [(0, [-3/2, 0])]\<rparr>
     [''A'' \<mapsto> 1/2, ''B'' \<mapsto> 1/2] ''6M''
   = ([(0, Some [-1, 2])], [(0, Some (3/2))])
   \<and> \<not> (3/2 \<le> (1::real))
   \<and> simulate_rebalancing single_period \<lparr>columns = [''A'', ''B''], rows = [(0, [-1, -1])]\<rparr>
       [''A'' \<mapsto> 1/2, ''B'' \<mapsto> 1/2] ''6M''
     = ([(0, None)], [(0, None)])"
  by (simp add: simulate_rebalancing_def rebalance_period_def frame_empty_def turnover_of_def
                div_by_sum_def vmul_def dict_get_def single_period_def Let_def)

section \<open>Buy-and-hold weight paths\<close>

lemma length_frame_cumprod_from: "length (frame_cumprod_from p rs) = length rs"
  by (induction rs arbitrary: p) auto

lemma length_frame_cumprod: "length (frame_cumprod rs) = length rs"
  by (cases rs) (auto simp: frame_cumprod_def length_frame_cumprod_from)

lemma frame_cumprod_from_nth:
  assumes "\<forall>r\<in>set rs. length r = n" "length p = n" "t < length rs"
  shows "length (frame_cumprod_from p rs ! t) = n
         \<and> (\<forall>i<n. frame_cumprod_from p rs ! t ! i = p ! i * prod_list (map (\<lambda>r. r ! i) (take (Suc t) rs)))"
  using assms
proof (induction rs arbitrary: p t)
  case Nil
  then show ?case by simp
next
  case (Cons r rs)
  have lr: "length r = n" using Cons.prems(1) by simp
  have lp: "length (vmul p r) = n" using lr Cons.prems(2) by (simp add: vmul_def)
  show ?case
  proof (cases t)
    case 0
    then show ?thesis using lr Cons.prems(2) by (simp add: vmul_def)
  next
    case (Suc j)
    have j: "j < length rs" using Suc Cons.prems(3) by simp
    have rs: "\<forall>r\<in>set rs. length r = n" using Cons.prems(1) by simp
    from Cons.IH [OF rs lp j] show ?thesis
      using Suc lr Cons.prems(2) by (simp add: vmul_def mult.assoc)
  qed
qed

lemma frame_cumprod_nth:
  assumes "\<forall>r\<in>set rs. length r = n" "t < length rs"
  shows "length (frame_cumprod rs ! t) = n
         \<and> (\<forall>i<n. frame_cumprod rs ! t ! i = prod_list (map (\<lambda>r. r ! i) (take (Suc t) rs)))"
proof (cases rs)
  case Nil
  with assms show ?thesis by simp
next
  case (Cons r rest)
  have lr: "length r = n" using assms(1) Cons by simp
  show ?thesis
  proof (cases t)
    case 0
    then show ?thesis using Cons lr by (simp add: frame_cumprod_def)
  next
    case (Suc j)
    have j: "j < length rest" using Suc assms(2) Cons by simp
    have rs: "\<forall>r\<in>set rest. length r = n" using assms(1) Cons by simp
    from frame_cumprod_from_nth [OF rs lr j] show ?thesis
      using Suc Cons by (simp add: frame_cumprod_def)
  qed
qed

lemma length_tracked_values: "length (tracked_values R w) = length (rows R)"
  by (simp add: tracked_values_def Let_def length_frame_cumprod)

lemma tracked_values_nth:
  assumes rect: "\<forall>(d, r)\<in>set (rows R). length r = length (columns R)"
      and t: "t < length (rows R)"
  shows "tracked_values R w ! t = map (spec_tracked_value R w t) [0..<length (columns R)]"
proof -
  let ?n = "length (columns R)"
  let ?rs = "map (\<lambda>(d, r). map (\<lambda>x. 1 + x) r) (rows R)"
  have r1: "\<forall>r\<in>set ?rs. length r = ?n" using rect by auto
  have t1: "t < length ?rs" using t by simp
  note c = frame_cumprod_nth [OF r1 t1]
  have tv: "tracked_values R w ! t
            = vmul (frame_cumprod ?rs ! t) (map (\<lambda>a. dict_get w a 0) (columns R))"
    using t by (simp add: tracked_values_def Let_def length_frame_cumprod)
  have pr: "prod_list (map (\<lambda>r. r ! i) (take (Suc t) ?rs))
            = prod_list (map (\<lambda>(d, r). 1 + r ! i) (take (Suc t) (rows R)))" if i: "i < ?n" for i
  proof -
    have "map (\<lambda>r. r ! i) (take (Suc t) ?rs)
          = map (\<lambda>(d, r). 1 + r ! i) (take (Suc t) (rows R))"
      unfolding take_map map_map
    proof (rule map_cong [OF refl])
      fix x assume "x \<in> set (take (Suc t) (rows R))"
      then have "x \<in> set (rows R)" by (rule in_set_takeD)
      with rect i show "((\<lambda>r. r ! i) \<circ> (\<lambda>(d, r). map (\<lambda>x. 1 + x) r)) x = (case x of (d, r) \<Rightarrow> 1 + r ! i)"
        by (cases x) auto
    qed
    then show ?thesis by simp
  qed
  show ?thesis
  proof (rule nth_equalityI)
    show "length (tracked_values R w ! t) = length (map (spec_tracked_value R w t) [0..<?n])"
      using c by (simp add: tv vmul_def)
  next
    fix i assume "i < length (tracked_values R w ! t)"
    then have i: "i < ?n" using c by (simp add: tv vmul_def)
    show "tracked_values R w ! t ! i = map (spec_tracked_value R w t) [0..<?n] ! i"
      using i c pr [OF i] by (simp add: tv vmul_def spec_tracked_value_def)
  qed
qed

lemma sum_list_map_upt: "sum_list (map f [0..<n]) = (\<Sum>j<n. f j)"
  by (simp add: sum_list_sum_nth lessThan_atLeast0) 

text \<open>
  Claim C6. On a rectangular returns table, at every date where the tracked values of the
  assets do not sum to zero, the row of \<open>weights_over_time_buy_and_hold\<close> is a row of
  numbers that sum to 1, one per asset, each the asset's tracked value over the sum of
  all tracked values at that date.
\<close>

theorem buy_and_hold_weights_sum_to_one:
  assumes rect: "\<forall>(d, r)\<in>set (rows R). length r = length (columns R)"
      and t: "t < length (rows R)"
      and nz: "(\<Sum>j<length (columns R). spec_tracked_value R w t j) \<noteq> 0"
  shows "\<exists>ws. weights_over_time_buy_and_hold R w ! t = (fst (rows R ! t), Some ws)
            \<and> sum_list ws = 1
            \<and> length ws = length (columns R)
            \<and> (\<forall>i<length (columns R).
                  ws ! i = spec_tracked_value R w t i
                             / (\<Sum>j<length (columns R). spec_tracked_value R w t j))"
proof -
  let ?n = "length (columns R)"
  let ?vs = "map (spec_tracked_value R w t) [0..<?n]"
  let ?s = "\<Sum>j<?n. spec_tracked_value R w t j"
  have tv: "tracked_values R w ! t = ?vs" by (rule tracked_values_nth [OF rect t])
  have s: "sum_list ?vs = ?s" by (rule sum_list_map_upt)
  let ?ws = "map (\<lambda>v. v / ?s) ?vs"
  have d: "div_by_sum ?vs = Some ?ws" using nz s by (simp add: div_by_sum_def)
  have "weights_over_time_buy_and_hold R w ! t = (fst (rows R ! t), Some ?ws)"
    using t tv d by (simp add: weights_over_time_buy_and_hold_def Let_def length_tracked_values)
  moreover have "sum_list ?ws = 1" using d by (rule div_by_sum_sums_to_one)
  moreover have "length ?ws = ?n" by simp
  moreover have "\<forall>i<?n. ?ws ! i = spec_tracked_value R w t i / ?s" by simp
  ultimately show ?thesis by blast
qed

text \<open>
  Claim C6, at the second date of the two-asset table with weights \<open>{A: 0.6, B: 0.4}\<close>.
\<close>

theorem buy_and_hold_weights_sum_to_one_witness:
  "\<exists>ws. weights_over_time_buy_and_hold two_assets [''A'' \<mapsto> 6/10, ''B'' \<mapsto> 4/10] ! 1
          = (fst (rows two_assets ! 1), Some ws) \<and> sum_list ws = 1"
proof -
  let ?w = "[''A'' \<mapsto> 6/10, ''B'' \<mapsto> 4/10 :: real]"
  have rect: "\<forall>(d, r)\<in>set (rows two_assets). length r = length (columns two_assets)"
    by (simp add: two_assets_def)
  have t: "1 < length (rows two_assets)" by (simp add: two_assets_def)
  have nz: "(\<Sum>j<length (columns two_assets). spec_tracked_value two_assets ?w 1 j) \<noteq> 0"
    by (simp add: two_assets_def spec_tracked_value_def dict_get_def lessThan_Suc)
  from buy_and_hold_weights_sum_to_one [OF rect t nz] show ?thesis by blast
qed










text \<open>
  Claim C10. An asset that the weight dictionary lacks is read with weight 0:
  \<open>weights_over_time_buy_and_hold\<close> and \<open>simulate_rebalancing\<close> return what they
  return when the dictionary has the asset with weight 0, and neither has an error
  result.
\<close>

theorem missing_asset_weight_zero:
  assumes "target_weights a = None"
  shows "dict_get target_weights a 0 = 0
       \<and> weights_over_time_buy_and_hold R (target_weights(a \<mapsto> 0))
           = weights_over_time_buy_and_hold R target_weights
       \<and> simulate_rebalancing groupby R (target_weights(a \<mapsto> 0)) freq
           = simulate_rebalancing groupby R target_weights freq"
proof -
  have g: "(\<lambda>b. dict_get (target_weights(a \<mapsto> 0)) b 0) = (\<lambda>b. dict_get target_weights b 0)"
    using assms by (auto simp: dict_get_def)
  have 0: "dict_get target_weights a 0 = 0" using assms by (simp add: dict_get_def)
  have 1: "weights_over_time_buy_and_hold R (target_weights(a \<mapsto> 0))
           = weights_over_time_buy_and_hold R target_weights"
    unfolding weights_over_time_buy_and_hold_def tracked_values_def g ..
  have 2: "simulate_rebalancing groupby R (target_weights(a \<mapsto> 0)) freq
           = simulate_rebalancing groupby R target_weights freq"
    unfolding simulate_rebalancing_def g ..
  show ?thesis using 0 1 2 by blast
qed

text \<open>
  Claim C10, at a dictionary that lacks asset \<open>B\<close> of the two-asset table.
\<close>

theorem missing_asset_weight_zero_witness:
  "weights_over_time_buy_and_hold two_assets [''A'' \<mapsto> 1, ''B'' \<mapsto> 0]
     = weights_over_time_buy_and_hold two_assets [''A'' \<mapsto> 1]
   \<and> simulate_rebalancing single_period two_assets [''A'' \<mapsto> 1, ''B'' \<mapsto> 0] ''6M''
     = simulate_rebalancing single_period two_assets [''A'' \<mapsto> 1] ''6M''
   \<and> weights_over_time_buy_and_hold two_assets [''A'' \<mapsto> 1] ! 0 = (0, Some [1, 0])"
proof -
  have h: "[''A'' \<mapsto> 1::real] ''B'' = None" by simp
  have e: "weights_over_time_buy_and_hold two_assets [''A'' \<mapsto> 1] ! 0 = (0, Some [1, 0])"
    by (simp add: weights_over_time_buy_and_hold_def tracked_values_def two_assets_def Let_def
                  frame_cumprod_def vmul_def dict_get_def div_by_sum_def)
  from missing_asset_weight_zero [of "[''A'' \<mapsto> 1]" "''B''" two_assets single_period "''6M''"] h e
  show ?thesis by simp
qed

section \<open>Random portfolios and the process-wide generator\<close>

lemma generate_random_portfolios_state:
  "np_seed np seed = Inr g1 \<Longrightarrow>
   snd (generate_random_portfolios np R k seed g)
     = (case np_dirichlet np g1 (length (columns R)) k of Inl e \<Rightarrow> g1 | Inr (samples, g2) \<Rightarrow> g2)"
  by (simp add: generate_random_portfolios_def Let_def split: sum.splits prod.splits)

text \<open>
  Claim C3. The frame that \<open>generate_random_portfolios\<close> returns (the weight samples
  in draw order and the metrics derived from them, or the exception) is the same for the
  same returns, number of portfolios and seed, whatever the state of the process-wide
  generator before the call.
\<close>

theorem generate_random_portfolios_deterministic:
  "fst (generate_random_portfolios np R num_portfolios seed g)
   = fst (generate_random_portfolios np R num_portfolios seed g')"
  by (simp add: generate_random_portfolios_def Let_def split: sum.splits prod.splits)

text \<open>
  Claim C2, as amended. \<open>generate_random_portfolios\<close> takes its seed as an explicit
  parameter and overwrites the process-wide generator state with it
  (\<^verbatim>\<open>np.random.seed\<close>), then draws from the process-wide generator: the state it
  leaves is the state after seeding and drawing, whatever the state before the call. Only
  when seeding raises is the state left as it was.
\<close>

theorem generate_random_portfolios_reseeds:
  "(\<forall>g1. np_seed np seed = Inr g1 \<longrightarrow>
      snd (generate_random_portfolios np R k seed g)
        = (case np_dirichlet np g1 (length (columns R)) k of Inl e \<Rightarrow> g1 | Inr (samples, g2) \<Rightarrow> g2))
   \<and> (\<forall>e. np_seed np seed = Inl e \<longrightarrow> generate_random_portfolios np R k seed g = (Inl e, g))"
  by (simp add: generate_random_portfolios_state) (simp add: generate_random_portfolios_def)

text \<open>
  Claim C2 as amended, at seed 42 and three draws over two assets.
\<close>

theorem generate_random_portfolios_reseeds_witness:
  "snd (generate_random_portfolios counter_rng two_assets 3 42 (7, 5)) = (42, 6)"
  using generate_random_portfolios_reseeds [of counter_rng 42 two_assets 3 "(7, 5)"]
  by (simp add: counter_rng_def two_assets_def)

text \<open>
  Claim C2 as stated fails: the call changes the process-wide generator state.
\<close>

theorem global_state_mutated:
  "snd (generate_random_portfolios counter_rng two_assets 3 42 (7, 5)) \<noteq> (7, 5)"
  using generate_random_portfolios_state [of counter_rng 42 "(42, 0)" two_assets 3 "(7, 5)"]
  by (simp add: counter_rng_def two_assets_def)

section \<open>Post-processing of the solver iterate\<close>

text \<open>
  The two lines after the solver call in \<open>recommend_weights_for_target_return\<close> and
  \<open>recommend_weights_for_max_vol\<close>: whenever the clipped iterate has a non-zero sum,
  the weights sum to 1, and a single positive weight becomes 1.
\<close>

lemma clip_renormalize_sums_to_one: "clip_renormalize xs = Some ws \<Longrightarrow> sum_list ws = 1"
  unfolding clip_renormalize_def by (rule div_by_sum_sums_to_one)

lemma clip_renormalize_single: "0 < x \<Longrightarrow> clip_renormalize [x] = Some [1]"
  by (simp add: clip_renormalize_def clip01_def div_by_sum_def min_def max_def)

lemma target_return_weights_postprocessed:
  "recommend_weights_for_target_return minimize R tr lo hi = Inr (ws, out) \<Longrightarrow>
   \<exists>x. ws = weights_dict (columns R) (clip_renormalize x)"
  by (auto simp: recommend_weights_for_target_return_def Let_def split: if_splits sum.splits)

lemma max_vol_weights_postprocessed:
  "recommend_weights_for_max_vol minimize R mv lo hi = Inr (ws, out) \<Longrightarrow>
   \<exists>x. ws = weights_dict (columns R) (clip_renormalize x)"
  by (auto simp: recommend_weights_for_max_vol_def Let_def split: if_splits sum.splits)

lemma weights_dict_sums_to_one:
  assumes "clip_renormalize x = Some w" "length x = length assets"
  shows "map snd (weights_dict assets (clip_renormalize x)) = map Some w \<and> sum_list w = 1"
proof -
  have "length w = length assets"
    using assms by (auto simp: clip_renormalize_def clip01_def div_by_sum_def split: if_splits)
  then show ?thesis
    using assms(1) clip_renormalize_sums_to_one [OF assms(1)] by (simp add: weights_dict_def)
qed

text \<open>
  Claim C1 fails on \<open>optimize_portfolio_sharpe\<close>. With two assets and a minimum
  weight of 0.6 every point within the bounds sums to at least 1.2. At the iterate
  \<open>[0.6, 0.6]\<close> the Sharpe optimizer returns the iterate as it is, with sum 1.2, while
  the other two optimizers clip and renormalize it to \<open>{A: 0.5, B: 0.5}\<close>.
\<close>

theorem sharpe_weights_not_renormalized:
  "map_sum id fst (optimize_portfolio_sharpe (solver_returning [6/10, 6/10]) two_assets (6/10) 1 0)
     = Inr [(''A'', Some (6/10)), (''B'', Some (6/10))]
   \<and> map_sum id fst
         (recommend_weights_for_target_return (solver_returning [6/10, 6/10]) two_assets (8/100) (6/10) 1)
     = Inr [(''A'', Some (1/2)), (''B'', Some (1/2))]
   \<and> map_sum id fst
         (recommend_weights_for_max_vol (solver_returning [6/10, 6/10]) two_assets (13/100) (6/10) 1)
     = Inr [(''A'', Some (1/2)), (''B'', Some (1/2))]"
  by (simp add: optimize_portfolio_sharpe_def recommend_weights_for_target_return_def
                recommend_weights_for_max_vol_def two_assets_def solver_returning_def Let_def
                weights_dict_def clip_renormalize_def clip01_def div_by_sum_def)

text \<open>
  Claim C5 fails on \<open>optimize_portfolio_sharpe\<close>. With one asset and a maximum
  weight of 0.5, at the iterate \<open>[0.5]\<close> the Sharpe optimizer returns weight 0.5, while
  the other two optimizers return weight 1.
\<close>

theorem sharpe_single_asset_not_one:
  "map_sum id fst (optimize_portfolio_sharpe (solver_returning [1/2]) one_asset 0 (1/2) 0)
     = Inr [(''A'', Some (1/2))]
   \<and> map_sum id fst
         (recommend_weights_for_target_return (solver_returning [1/2]) one_asset (8/100) 0 (1/2))
     = Inr [(''A'', Some 1)]
   \<and> map_sum id fst
         (recommend_weights_for_max_vol (solver_returning [1/2]) one_asset (13/100) 0 (1/2))
     = Inr [(''A'', Some 1)]"
  by (simp add: optimize_portfolio_sharpe_def recommend_weights_for_target_return_def
                recommend_weights_for_max_vol_def one_asset_def solver_returning_def Let_def
                weights_dict_def clip_renormalize_def clip01_def div_by_sum_def)

end
